theory Spec2Isabelle
  imports Complex_Main "HOL-Library.Word" "HOL-Library.Sublist" "HOL-Library.Monad_Syntax"
begin

unbundle bit_operations_syntax

section \<open>JavaScript values\<close>

text \<open>
  A JavaScript string is the sequence of its UTF-16 code units. \<open>str\<close> writes an ASCII
  literal of the source as such a sequence.
\<close>

type_synonym codeunit = "16 word"
type_synonym jsstring = "codeunit list"

definition str :: "string \<Rightarrow> jsstring" where
  "str s = map (\<lambda>c. of_nat (of_char c)) s"

text \<open>
  The values that \<open>express.json()\<close> can leave in \<open>req.body\<close> and that the handlers pass on.
  An object is the list of its own properties in insertion order; \<open>map_of\<close> reads a
  property. Numbers carry their numeric value only; no function below inspects one.
\<close>

datatype jsvalue =
    JUndefined
  | JNull
  | JBool bool
  | JNumber real
  | JString jsstring
  | JArray "jsvalue list"
  | JObject "(jsstring \<times> jsvalue) list"

type_synonym jsobject = "(jsstring \<times> jsvalue) list"

text \<open>Defining a property in an object literal: an existing key keeps its place.\<close>

fun setProp :: "jsobject \<Rightarrow> jsstring \<Rightarrow> jsvalue \<Rightarrow> jsobject" where
  "setProp [] k v = [(k, v)]"
| "setProp ((k', v') # ps) k v = (if k' = k then (k', v) # ps else (k', v') # setProp ps k v)"

text \<open>
  \<open>String.prototype.trim\<close> removes the code units of the ECMAScript classes WhiteSpace and
  LineTerminator from both ends.
\<close>

definition isWhiteSpace :: "codeunit \<Rightarrow> bool" where
  "isWhiteSpace c =
     (c \<in> {0x0009, 0x000A, 0x000B, 0x000C, 0x000D, 0x0020, 0x00A0, 0x1680,
            0x2028, 0x2029, 0x202F, 0x205F, 0x3000, 0xFEFF}
      \<or> (0x2000 \<le> c \<and> c \<le> 0x200A))"

definition trim :: "jsstring \<Rightarrow> jsstring" where
  "trim s = rev (dropWhile isWhiteSpace (rev (dropWhile isWhiteSpace s)))"

text \<open>
  \<open>String.prototype.toLowerCase\<close> on the letters A to Z; other code units are kept. The
  program applies it to the header name \<open>Authorization\<close> only.
\<close>

definition toLowerCase :: "jsstring \<Rightarrow> jsstring" where
  "toLowerCase s = map (\<lambda>c. if 0x41 \<le> c \<and> c \<le> 0x5A then c + 0x20 else c) s"

section \<open>The zod schemas the program builds\<close>

text \<open>
  The UUID pattern of zod's \<open>z.string().uuid()\<close>, matched against the whole string without
  regard to case: groups of 8, 4, 4, 4 and 12 hexadecimal digits, separated by hyphens.
  \<open>hexes n\<close> consumes exactly \<open>n\<close> hexadecimal digits and \<open>hyphen\<close> one hyphen; each returns the
  rest of the input, or \<open>None\<close> when the input does not match. This is the pattern of the
  recent releases of zod 3; earlier ones also ask for a version digit from 1 to 5.
\<close>

definition isHex :: "codeunit \<Rightarrow> bool" where
  "isHex c = ((0x30 \<le> c \<and> c \<le> 0x39) \<or> (0x41 \<le> c \<and> c \<le> 0x46) \<or> (0x61 \<le> c \<and> c \<le> 0x66))"

fun hexes :: "nat \<Rightarrow> jsstring \<Rightarrow> jsstring option" where
  "hexes 0 s = Some s"
| "hexes (Suc n) [] = None"
| "hexes (Suc n) (c # s) = (if isHex c then hexes n s else None)"

fun hyphen :: "jsstring \<Rightarrow> jsstring option" where
  "hyphen [] = None"
| "hyphen (c # s) = (if c = 0x2D then Some s else None)"

definition uuidRegex :: "jsstring \<Rightarrow> bool" where
  "uuidRegex s =
     (hexes 8 s \<bind> hyphen \<bind> hexes 4 \<bind> hyphen \<bind> hexes 4 \<bind> hyphen \<bind> hexes 4
        \<bind> hyphen \<bind> hexes 12 = Some [])"

text \<open>
  A string schema is the list of its checks, run in the order in which the builder calls
  added them. \<open>trim\<close> replaces the data, \<open>min\<close> and \<open>uuid\<close> record an issue and go on. An
  issue keeps its code and the path of the value it is about.
\<close>

datatype stringCheck = Trim | Min nat | Uuid

datatype issueCode = invalid_type | too_small | invalid_string

datatype zodIssue = Issue (code: issueCode) (path: "jsstring list")

datatype error = ZodError (issues: "zodIssue list")

type_synonym zodString = "stringCheck list"
type_synonym zodObject = "(jsstring \<times> zodString) list"

fun runChecks :: "jsstring list \<Rightarrow> stringCheck list \<Rightarrow> jsstring \<times> zodIssue list \<Rightarrow> jsstring \<times> zodIssue list" where
  "runChecks p [] st = st"
| "runChecks p (Trim # cs) (s, iss) = runChecks p cs (trim s, iss)"
| "runChecks p (Min n # cs) (s, iss) =
     runChecks p cs (s, if length s < n then iss @ [Issue too_small p] else iss)"
| "runChecks p (Uuid # cs) (s, iss) =
     runChecks p cs (s, if uuidRegex s then iss else iss @ [Issue invalid_string p])"

text \<open>Parsing a value at path \<open>p\<close> against a string schema: the issues, or the checked string.\<close>

definition parseString :: "zodString \<Rightarrow> jsstring list \<Rightarrow> jsvalue \<Rightarrow> zodIssue list + jsstring" where
  "parseString checks p v =
     (case v of
        JString s \<Rightarrow>
          (case runChecks p checks (s, []) of
             (s', []) \<Rightarrow> Inr s'
           | (s', i # iss) \<Rightarrow> Inl (i # iss))
      | _ \<Rightarrow> Inl [Issue invalid_type p])"

text \<open>
  Parsing the properties an object schema declares, each at the path of its key; a
  missing property is read as \<open>undefined\<close>. Properties the schema does not declare are not
  looked at and are not part of the output (zod's default for unknown keys).
\<close>

fun parseShape :: "zodObject \<Rightarrow> jsstring list \<Rightarrow> jsobject \<Rightarrow> zodIssue list \<times> jsobject" where
  "parseShape [] p data = ([], [])"
| "parseShape ((k, schema) # shape) p data =
     (let field = parseString schema (p @ [k]) (case map_of data k of None \<Rightarrow> JUndefined | Some v \<Rightarrow> v);
          (iss, out) = parseShape shape p data
      in case field of
           Inl e \<Rightarrow> (e @ iss, out)
         | Inr s \<Rightarrow> (iss, (k, JString s) # out))"

definition parseObject :: "zodObject \<Rightarrow> jsstring list \<Rightarrow> jsvalue \<Rightarrow> zodIssue list + jsobject" where
  "parseObject shape p v =
     (case v of
        JObject data \<Rightarrow>
          (case parseShape shape p data of
             ([], out) \<Rightarrow> Inr out
           | (i # iss, out) \<Rightarrow> Inl (i # iss))
      | _ \<Rightarrow> Inl [Issue invalid_type p])"

text \<open>
  \<open>schema.parse(v)\<close> throws a \<open>ZodError\<close> where \<open>schema.safeParse(v)\<close> returns it; the program
  calls the first on string schemas and the second on its object schema.
\<close>

definition parse :: "zodString \<Rightarrow> jsvalue \<Rightarrow> error + jsstring" where
  "parse schema v = (case parseString schema [] v of Inl iss \<Rightarrow> Inl (ZodError iss) | Inr s \<Rightarrow> Inr s)"

definition safeParse :: "zodObject \<Rightarrow> jsvalue \<Rightarrow> error + jsobject" where
  "safeParse object v = (case parseObject object [] v of Inl iss \<Rightarrow> Inl (ZodError iss) | Inr data \<Rightarrow> Inr data)"

section \<open>The uuid generator\<close>

text \<open>
  \<open>v4()\<close> of the uuid package: sixteen random bytes, the version and variant bits set, written
  as lower-case hexadecimal digits with hyphens. The random bytes are an argument, read
  by index as the byte array is.
\<close>

definition hexDigit :: "8 word \<Rightarrow> codeunit" where
  "hexDigit n = (if n < 10 then 0x30 + ucast n else 0x57 + ucast n)"

definition byteToHex :: "8 word \<Rightarrow> jsstring" where
  "byteToHex b = [hexDigit (drop_bit 4 b), hexDigit (b AND 0x0F)]"

definition unsafeStringify :: "(nat \<Rightarrow> 8 word) \<Rightarrow> jsstring" where
  "unsafeStringify arr =
     byteToHex (arr 0) @ byteToHex (arr 1) @ byteToHex (arr 2) @ byteToHex (arr 3) @ [0x2D] @
     byteToHex (arr 4) @ byteToHex (arr 5) @ [0x2D] @
     byteToHex (arr 6) @ byteToHex (arr 7) @ [0x2D] @
     byteToHex (arr 8) @ byteToHex (arr 9) @ [0x2D] @
     byteToHex (arr 10) @ byteToHex (arr 11) @ byteToHex (arr 12) @ byteToHex (arr 13) @
     byteToHex (arr 14) @ byteToHex (arr 15)"

definition v4 :: "(nat \<Rightarrow> 8 word) \<Rightarrow> jsstring" where
  "v4 rng =
     (let rnds = rng(6 := (rng 6 AND 0x0F) OR 0x40);
          rnds = rnds(8 := (rnds 8 AND 0x3F) OR 0x80)
      in unsafeStringify rnds)"

section \<open>UTIL\<close>

text \<open>
  The part of an express request that the handlers read, and the part of the response
  that they write. Node stores header names in lower case; a header is one string, or a
  list of strings. The string \<open>JSON.stringify(o.error)\<close> is kept as the error it renders.
\<close>

datatype headerValue = Single jsstring | Multi "jsstring list"

fun headerData :: "headerValue \<Rightarrow> jsvalue" where
  "headerData (Single s) = JString s"
| "headerData (Multi ss) = JArray (map JString ss)"

record request =
  body :: jsvalue
  headers :: "jsstring \<Rightarrow> headerValue option"




datatype payload = Sent jsvalue | SentStringified error

record response =
  statusCode :: nat
  sent :: "payload option"

definition status :: "nat \<Rightarrow> response \<Rightarrow> response" where
  "status c res = res\<lparr>statusCode := c\<rparr>"

definition send :: "payload \<Rightarrow> response \<Rightarrow> response" where
  "send p res = res\<lparr>sent := Some p\<rparr>"

text \<open>
  A request handler takes the request and the response and returns the response as it
  leaves it, with the exception that escaped from it, if one did. No handler of the
  program calls \<open>next\<close>.
\<close>

type_synonym RequestHandler = "request \<Rightarrow> response \<Rightarrow> response \<times> error option"

definition entityAs :: "zodObject \<Rightarrow> (jsobject \<Rightarrow> RequestHandler) \<Rightarrow> RequestHandler" where
  "entityAs object result = (\<lambda>req res.
     case safeParse object (body req) of
       Inr data \<Rightarrow> result data req res
     | Inl e \<Rightarrow> (send (SentStringified e) (status 400 res), None))"

definition headerValueByName :: "jsstring \<Rightarrow> (headerValue \<Rightarrow> RequestHandler) \<Rightarrow> RequestHandler" where
  "headerValueByName name result = (\<lambda>req res.
     case headers req (toLowerCase name) of
       None \<Rightarrow> (send (Sent (JString (str ''No header '' @ name))) (status 400 res), None)
     | Some v \<Rightarrow> result v req res)"

definition completeAsJson :: "(unit \<Rightarrow> error + nat \<times> jsvalue) \<Rightarrow> RequestHandler" where
  "completeAsJson result = (\<lambda>req res.
     case result () of
       Inl e \<Rightarrow> (res, Some e)
     | Inr ev \<Rightarrow> (send (Sent (snd ev)) (status (fst ev) res), None))"

section \<open>DOMAIN and DTO\<close>

definition projectNameFormat :: zodString where
  "projectNameFormat = [Trim, Min 1]"

definition projectIdFormat :: zodString where
  "projectIdFormat = [Uuid]"

definition userIdFormat :: zodString where
  "userIdFormat = [Uuid]"

definition CreateProjectRequest :: zodObject where
  "CreateProjectRequest = [(str ''name'', projectNameFormat)]"

datatype CreateProjectResponse = Created jsobject | UserNotFound jsstring

section \<open>SERVICE\<close>

text \<open>
  \<open>rand\<close> is the value \<open>Math.random()\<close> returns in this call and \<open>rng\<close> the random bytes \<open>v4()\<close>
  draws. Both sides of the comparison are doubles, compared by their values: \<open>rand\<close> is the
  value of the double drawn, and \<open>double_0_3\<close> the value of the double that the literal \<open>0.3\<close>
  denotes, the one nearest to three tenths, which lies just below it.
\<close>

definition double_0_3 :: real where
  "double_0_3 = 5404319552844595 / 2 ^ 54"

definition createProject :: "real \<Rightarrow> (nat \<Rightarrow> 8 word) \<Rightarrow> jsstring \<Rightarrow> jsobject \<Rightarrow> error + CreateProjectResponse" where
  "createProject rand rng userId request =
     (if rand < double_0_3 then Inr (UserNotFound userId)
      else
        (case parse projectIdFormat (JString (v4 rng)) of
           Inl e \<Rightarrow> Inl e
         | Inr projectId \<Rightarrow>
             Inr (Created (setProp (setProp request (str ''userId'') (JString userId))
                                   (str ''id'') (JString projectId)))))"

section \<open>MAIN\<close>

text \<open>
  The handler registered for \<open>POST /\<close>, as a function of the service it calls; the program
  registers it with \<open>createProject\<close>. \<open>thunk\<close> is the function that the handler passes to
  \<open>completeAsJson\<close>.
\<close>

definition thunk :: "(jsstring \<Rightarrow> jsobject \<Rightarrow> error + CreateProjectResponse) \<Rightarrow> headerValue \<Rightarrow> jsobject \<Rightarrow> unit \<Rightarrow> error + nat \<times> jsvalue" where
  "thunk service token request = (\<lambda>_.
     case parse userIdFormat (headerData token) of
       Inl e \<Rightarrow> Inl e
     | Inr uid \<Rightarrow>
         (case service uid request of
            Inl e \<Rightarrow> Inl e
          | Inr (Created project) \<Rightarrow> Inr (201, JObject project)
          | Inr (UserNotFound userId) \<Rightarrow> Inr (404, JString (str ''Sry, no user found''))))"

definition route :: "(jsstring \<Rightarrow> jsobject \<Rightarrow> error + CreateProjectResponse) \<Rightarrow> RequestHandler" where
  "route service =
     entityAs CreateProjectRequest (\<lambda>request.
       headerValueByName (str ''Authorization'') (\<lambda>token.
         completeAsJson (thunk service token request)))"

definition app_post :: "real \<Rightarrow> (nat \<Rightarrow> 8 word) \<Rightarrow> RequestHandler" where
  "app_post rand rng = route (createProject rand rng)"

section \<open>Example inputs\<close>

text \<open>
  A caller identity in UUID form, random bytes that are all zero, a response nothing has
  been written to, and header tables without and with an \<open>Authorization\<close> header.
\<close>

definition exampleToken :: jsstring where
  "exampleToken = str ''3fa85f64-5717-4562-b3fc-2c963f66afa6''"

definition zeroBytes :: "nat \<Rightarrow> 8 word" where
  "zeroBytes = (\<lambda>_. 0)"

definition freshResponse :: response where
  "freshResponse = \<lparr>statusCode = 200, sent = None\<rparr>"

definition noHeaders :: "jsstring \<Rightarrow> headerValue option" where
  "noHeaders = Map.empty"

definition authorization :: "headerValue \<Rightarrow> jsstring \<Rightarrow> headerValue option" where
  "authorization v = [str ''authorization'' \<mapsto> v]"

section \<open>The generated identifier is a UUID\<close>

lemma unat_ucast_byte: "unat (ucast (n :: 8 word) :: 16 word) = unat n"
proof -
  have "unat n < 2 ^ 16"
    using unsigned_less [of n, where ?'a = nat] by simp
  then show ?thesis
    by (simp add: unsigned_ucast_eq take_bit_nat_eq_self)
qed

lemma hexDigit_isHex:
  assumes "unat n < 16"
  shows "isHex (hexDigit n)"
proof (cases "unat n < 10")
  case True
  then have "unat (0x30 + ucast n :: 16 word) = 48 + unat n"
    by (simp add: unat_word_ariths unat_ucast_byte)
  with True show ?thesis
    by (simp add: isHex_def hexDigit_def word_le_nat_alt word_less_nat_alt)
next
  case False
  with assms have "unat (0x57 + ucast n :: 16 word) = 87 + unat n"
    by (simp add: unat_word_ariths unat_ucast_byte)
  with False assms show ?thesis
    by (simp add: isHex_def hexDigit_def word_le_nat_alt word_less_nat_alt)
qed

lemma high_nibble_less: "unat (drop_bit 4 (b :: 8 word)) < 16"
proof -
  have "unat b < 256"
    using unsigned_less [of b, where ?'a = nat] by simp
  then show ?thesis
    by (simp add: drop_bit_eq_div unat_div)
qed

lemma low_nibble_less: "unat ((b :: 8 word) AND 0x0F) < 16"
proof -
  have "b AND 0x0F \<le> 0x0F"
    by (rule word_and_le1)
  then show ?thesis
    by (simp add: word_le_nat_alt)
qed

lemma hexes_byteToHex: "hexes (Suc (Suc n)) (byteToHex b @ s) = hexes n s"
  by (simp add: byteToHex_def hexDigit_isHex high_nibble_less low_nibble_less)

lemma hexes_unsafeStringify: "uuidRegex (unsafeStringify arr)"
proof -
  have 8: "8 = Suc (Suc (Suc (Suc (Suc (Suc (Suc (Suc 0)))))))"
    and 4: "4 = Suc (Suc (Suc (Suc 0)))"
    and 12: "12 = Suc (Suc (Suc (Suc (Suc (Suc (Suc (Suc (Suc (Suc (Suc (Suc 0)))))))))))"
    by simp_all
  have last: "hexes (Suc (Suc 0)) (byteToHex b) = Some []" for b
    using hexes_byteToHex [of 0 b "[]"] by simp
  show ?thesis
    unfolding uuidRegex_def unsafeStringify_def 8 4 12
    by (simp add: hexes_byteToHex last)
qed

lemma uuidRegex_v4: "uuidRegex (v4 rng)"
  by (simp add: v4_def Let_def hexes_unsafeStringify)

lemma version_nibble: "drop_bit 4 (((b :: 8 word) AND 0x0F) OR 0x40) = 4"
proof -
  have "drop_bit 4 (0x0F :: 8 word) = 0" and "drop_bit 4 (0x40 :: 8 word) = 4"
    by (simp_all add: drop_bit_eq_div)
  then show ?thesis
    by (simp add: drop_bit_or drop_bit_and)
qed

lemma v4_version: "v4 rng ! 14 = 0x34"
  by (simp add: v4_def Let_def unsafeStringify_def byteToHex_def version_nibble hexDigit_def nth_Cons')

lemma parse_uuid:
  "parse [Uuid] (JString s) = (if uuidRegex s then Inr s else Inl (ZodError [Issue invalid_string []]))"
  by (simp add: parse_def parseString_def)

section \<open>Strings and schemas\<close>

lemma trim_Nil_iff: "trim s = [] \<longleftrightarrow> list_all isWhiteSpace s"
proof
  assume "trim s = []"
  then have all: "\<forall>c \<in> set (dropWhile isWhiteSpace s). isWhiteSpace c"
    by (simp add: trim_def)
  have "dropWhile isWhiteSpace s = []"
  proof (rule ccontr)
    assume ne: "dropWhile isWhiteSpace s \<noteq> []"
    then have "\<not> isWhiteSpace (hd (dropWhile isWhiteSpace s))"
      by (rule hd_dropWhile)
    moreover from ne have "hd (dropWhile isWhiteSpace s) \<in> set (dropWhile isWhiteSpace s)"
      by simp
    ultimately show False using all by blast
  qed
  then show "list_all isWhiteSpace s"
    by (simp add: list_all_iff)
next
  assume "list_all isWhiteSpace s"
  then have dw: "dropWhile isWhiteSpace s = []"
    by (simp add: list_all_iff)
  show "trim s = []"
    unfolding trim_def dw by simp
qed

lemma parseString_name:
  "parseString projectNameFormat p (JString n) =
     (if list_all isWhiteSpace n then Inl [Issue too_small p] else Inr (trim n))"
  using trim_Nil_iff [of n] by (simp add: parseString_def projectNameFormat_def)

lemma parseString_not_string:
  "\<forall>s. v \<noteq> JString s \<Longrightarrow> parseString checks p v = Inl [Issue invalid_type p]"
  by (cases v) (auto simp: parseString_def)

lemma safeParse_not_object:
  "\<forall>data. v \<noteq> JObject data \<Longrightarrow> safeParse object v = Inl (ZodError [Issue invalid_type []])"
  by (cases v) (auto simp: safeParse_def parseObject_def)

lemma safeParse_object:
  "safeParse CreateProjectRequest (JObject data) =
     (case parseString projectNameFormat [str ''name'']
             (case map_of data (str ''name'') of None \<Rightarrow> JUndefined | Some v \<Rightarrow> v) of
        Inl iss \<Rightarrow> Inl (ZodError iss)
      | Inr s \<Rightarrow> Inr [(str ''name'', JString s)])"
  by (simp add: safeParse_def parseObject_def CreateProjectRequest_def parseString_def projectNameFormat_def
      split: sum.splits list.splits jsvalue.splits option.splits prod.splits)

lemma safeParse_valid:
  assumes "map_of data (str ''name'') = Some (JString n)" and "\<not> list_all isWhiteSpace n"
  shows "safeParse CreateProjectRequest (JObject data) = Inr [(str ''name'', JString (trim n))]"
  using assms by (simp add: safeParse_object parseString_name)

lemma safeParse_invalid_name:
  assumes "\<forall>n. map_of data (str ''name'') = Some (JString n) \<longrightarrow> list_all isWhiteSpace n"
  shows "\<exists>c. safeParse CreateProjectRequest (JObject data) = Inl (ZodError [Issue c [str ''name'']])"
proof (cases "\<exists>n. map_of data (str ''name'') = Some (JString n)")
  case True
  with assms show ?thesis
    by (auto simp: safeParse_object parseString_name)
next
  case False
  then have "\<forall>s. (case map_of data (str ''name'') of None \<Rightarrow> JUndefined | Some v \<Rightarrow> v) \<noteq> JString s"
    by (auto split: option.splits)
  then show ?thesis
    by (simp add: safeParse_object parseString_not_string)
qed

lemma safeParse_Inr:
  assumes "safeParse CreateProjectRequest v = Inr request"
  shows "\<exists>data n. v = JObject data \<and> map_of data (str ''name'') = Some (JString n)
           \<and> \<not> list_all isWhiteSpace n \<and> request = [(str ''name'', JString (trim n))]"
proof (cases "\<exists>data. v = JObject data")
  case False
  with assms show ?thesis
    by (simp add: safeParse_not_object)
next
  case True
  then obtain data where v: "v = JObject data" by blast
  show ?thesis
  proof (cases "\<forall>n. map_of data (str ''name'') = Some (JString n) \<longrightarrow> list_all isWhiteSpace n")
    case True
    from safeParse_invalid_name [OF this] assms v show ?thesis
      by auto
  next
    case False
    then obtain n where n: "map_of data (str ''name'') = Some (JString n)" "\<not> list_all isWhiteSpace n"
      by blast
    from safeParse_valid [OF n] assms v n show ?thesis
      by auto
  qed
qed

lemma parse_userId_single:
  "parse userIdFormat (JString s) =
     (if uuidRegex s then Inr s else Inl (ZodError [Issue invalid_string []]))"
  by (simp add: userIdFormat_def parse_uuid)

lemma parse_userId_multi:
  "parse userIdFormat (JArray vs) = Inl (ZodError [Issue invalid_type []])"
  by (simp add: parse_def parseString_def)

lemma parse_userId_Inr:
  assumes "parse userIdFormat (headerData token) = Inr uid"
  shows "token = Single uid \<and> uuidRegex uid"
  using assms by (cases token) (auto simp: parse_userId_single parse_userId_multi split: if_splits)

lemma hexes_length: "hexes n s = Some r \<Longrightarrow> length s = n + length r"
  by (induction n s rule: hexes.induct) (auto split: if_splits)

lemma hyphen_length: "hyphen s = Some r \<Longrightarrow> length s = Suc (length r)"
  by (cases s) (auto split: if_splits)

lemma uuidRegex_length: "uuidRegex s \<Longrightarrow> length s = 36"
  by (auto simp: uuidRegex_def bind_eq_Some_conv dest!: hexes_length hyphen_length)


lemma keys_distinct:
  "str ''name'' \<noteq> str ''userId''" "str ''name'' \<noteq> str ''id''" "str ''userId'' \<noteq> str ''id''"
  by (simp_all add: str_def)

section \<open>The stages of the route\<close>

lemma lowercase_Authorization: "toLowerCase (str ''Authorization'') = str ''authorization''"
  by code_simp

lemma no_header_text: "str ''No header '' @ str ''Authorization'' = str ''No header Authorization''"
  by code_simp

lemma route_invalid_body:
  assumes "safeParse CreateProjectRequest (body req) = Inl e"
  shows "route service req res = (res\<lparr>statusCode := 400, sent := Some (SentStringified e)\<rparr>, None)"
  using assms by (simp add: route_def entityAs_def send_def status_def)

lemma route_no_header:
  assumes "safeParse CreateProjectRequest (body req) = Inr request"
    and "headers req (str ''authorization'') = None"
  shows "route service req res =
    (res\<lparr>statusCode := 400, sent := Some (Sent (JString (str ''No header Authorization'')))\<rparr>, None)"
  using assms
  by (simp add: route_def entityAs_def headerValueByName_def lowercase_Authorization no_header_text
      send_def status_def)

lemma route_thunk:
  assumes "safeParse CreateProjectRequest (body req) = Inr request"
    and "headers req (str ''authorization'') = Some token"
  shows "route service req res = completeAsJson (thunk service token request) req res"
  using assms
  by (simp add: route_def entityAs_def headerValueByName_def lowercase_Authorization)

lemma createProject_eq:
  "createProject rand rng userId request =
     (if rand < double_0_3 then Inr (UserNotFound userId)
      else Inr (Created (setProp (setProp request (str ''userId'') (JString userId))
                                 (str ''id'') (JString (v4 rng)))))"
  by (simp add: createProject_def projectIdFormat_def parse_uuid uuidRegex_v4)

lemma completeAsJson_raises:
  "result () = Inl e \<Longrightarrow> completeAsJson result req res = (res, Some e)"
  by (simp add: completeAsJson_def)

lemma completeAsJson_writes:
  "result () = Inr (c, v) \<Longrightarrow>
   completeAsJson result req res = (res\<lparr>statusCode := c, sent := Some (Sent v)\<rparr>, None)"
  by (simp add: completeAsJson_def send_def status_def)

section \<open>The identifier determines the random bytes\<close>









section \<open>The header table of a request\<close>







section \<open>The claims\<close>

text \<open>
  C1 (amended). A request whose body is an object with a name that passes validation and
  whose \<open>Authorization\<close> header is one valid UUID, for which \<open>createProject\<close> returns Created,
  is answered with status 201 and the created project: its \<open>name\<close> is the submitted name
  with the white space at both ends removed, its \<open>userId\<close> is the header value, and its
  \<open>id\<close> and \<open>userId\<close> are valid UUIDs.
\<close>

theorem post_created:
  assumes "body req = JObject data"
    and "map_of data (str ''name'') = Some (JString name)"
    and "safeParse CreateProjectRequest (body req) = Inr request"
    and "headers req (str ''authorization'') = Some (Single token)"
    and "uuidRegex token"
    and "createProject rand rng token request = Inr (Created project)"
  shows "app_post rand rng req res =
           (res\<lparr>statusCode := 201, sent := Some (Sent (JObject project))\<rparr>, None)
         \<and> project = [(str ''name'', JString (trim name)), (str ''userId'', JString token),
                      (str ''id'', JString (v4 rng))]
         \<and> uuidRegex (v4 rng) \<and> uuidRegex token"
proof -
  from safeParse_Inr [OF assms(3)] assms(1,2)
  have request: "request = [(str ''name'', JString (trim name))]"
    by auto
  from assms(6) have "project = setProp (setProp request (str ''userId'') (JString token))
      (str ''id'') (JString (v4 rng))"
    by (simp add: createProject_eq split: if_splits)
  then have project: "project = [(str ''name'', JString (trim name)), (str ''userId'', JString token),
      (str ''id'', JString (v4 rng))]"
    by (simp add: request keys_distinct)
  have "thunk (createProject rand rng) (Single token) request () = Inr (201, JObject project)"
    using assms(5,6) by (simp add: thunk_def parse_userId_single)
  then have "app_post rand rng req res =
      (res\<lparr>statusCode := 201, sent := Some (Sent (JObject project))\<rparr>, None)"
    unfolding app_post_def route_thunk [OF assms(3,4)] by (rule completeAsJson_writes)
  with project assms(5) show ?thesis
    by (simp add: uuidRegex_v4)
qed

theorem post_created_witness:
  "app_post (1/2) zeroBytes
     \<lparr>body = JObject [(str ''name'', JString (str '' Demo ''))],
      headers = authorization (Single exampleToken)\<rparr> freshResponse =
     (freshResponse\<lparr>statusCode := 201, sent := Some (Sent (JObject
        [(str ''name'', JString (str ''Demo'')), (str ''userId'', JString exampleToken),
         (str ''id'', JString (str ''00000000-0000-4000-8000-000000000000''))]))\<rparr>, None)"
proof -
  let ?data = "[(str ''name'', JString (str '' Demo ''))]"
  let ?req = "\<lparr>body = JObject ?data, headers = authorization (Single exampleToken)\<rparr>"
  let ?project = "[(str ''name'', JString (str ''Demo'')), (str ''userId'', JString exampleToken),
         (str ''id'', JString (str ''00000000-0000-4000-8000-000000000000''))]"
  have 1: "body ?req = JObject ?data" by simp
  have 2: "map_of ?data (str ''name'') = Some (JString (str '' Demo ''))" by simp
  have 3: "safeParse CreateProjectRequest (body ?req) = Inr [(str ''name'', JString (str ''Demo''))]"
    by code_simp
  have 4: "headers ?req (str ''authorization'') = Some (Single exampleToken)"
    by (simp add: authorization_def)
  have 5: "uuidRegex exampleToken" by code_simp
  have 6: "createProject (1/2) zeroBytes exampleToken [(str ''name'', JString (str ''Demo''))] =
      Inr (Created ?project)"
    by code_simp
  from post_created [OF 1 2 3 4 5 6, of freshResponse] show ?thesis
    by simp
qed

theorem post_created_name_counterexample:
  "safeParse CreateProjectRequest (JObject [(str ''name'', JString (str '' Demo''))]) =
     Inr [(str ''name'', JString (str ''Demo''))]
   \<and> uuidRegex exampleToken
   \<and> createProject (1/2) zeroBytes exampleToken [(str ''name'', JString (str ''Demo''))] =
       Inr (Created [(str ''name'', JString (str ''Demo'')), (str ''userId'', JString exampleToken),
         (str ''id'', JString (str ''00000000-0000-4000-8000-000000000000''))])
   \<and> app_post (1/2) zeroBytes
       \<lparr>body = JObject [(str ''name'', JString (str '' Demo''))],
        headers = authorization (Single exampleToken)\<rparr> freshResponse =
       (\<lparr>statusCode = 201, sent = Some (Sent (JObject
          [(str ''name'', JString (str ''Demo'')), (str ''userId'', JString exampleToken),
           (str ''id'', JString (str ''00000000-0000-4000-8000-000000000000''))]))\<rparr>, None)
   \<and> JString (str ''Demo'') \<noteq> JString (str '' Demo'')"
  by code_simp

text \<open>
  C2 (amended). A request without an \<open>Authorization\<close> header is answered with status 400.
  The body of the answer is the text \<open>No header Authorization\<close> when the request body passes
  validation; when it does not, the answer is the one of body validation, which runs first.
\<close>

theorem post_no_header:
  assumes "headers req (str ''authorization'') = None"
  shows "statusCode (fst (app_post rand rng req res)) = 400
         \<and> snd (app_post rand rng req res) = None
         \<and> (\<forall>request. safeParse CreateProjectRequest (body req) = Inr request \<longrightarrow>
               app_post rand rng req res =
                 (res\<lparr>statusCode := 400,
                      sent := Some (Sent (JString (str ''No header Authorization'')))\<rparr>, None))
         \<and> (\<forall>e. safeParse CreateProjectRequest (body req) = Inl e \<longrightarrow>
               app_post rand rng req res =
                 (res\<lparr>statusCode := 400, sent := Some (SentStringified e)\<rparr>, None))"
proof (cases "safeParse CreateProjectRequest (body req)")
  case (Inl e)
  from route_invalid_body [OF this] show ?thesis
    by (simp add: app_post_def Inl)
next
  case (Inr request)
  from route_no_header [OF this assms] show ?thesis
    by (simp add: app_post_def Inr)
qed

theorem post_no_header_witness:
  "headers \<lparr>body = JObject [(str ''name'', JString (str ''Demo''))], headers = noHeaders\<rparr>
     (str ''authorization'') = None
   \<and> safeParse CreateProjectRequest (JObject [(str ''name'', JString (str ''Demo''))]) =
       Inr [(str ''name'', JString (str ''Demo''))]
   \<and> app_post (1/2) zeroBytes
       \<lparr>body = JObject [(str ''name'', JString (str ''Demo''))], headers = noHeaders\<rparr> freshResponse =
       (freshResponse\<lparr>statusCode := 400,
          sent := Some (Sent (JString (str ''No header Authorization'')))\<rparr>, None)"
proof -
  let ?req = "\<lparr>body = JObject [(str ''name'', JString (str ''Demo''))], headers = noHeaders\<rparr>"
  have h: "headers ?req (str ''authorization'') = None"
    by (simp add: noHeaders_def)
  have v: "safeParse CreateProjectRequest (JObject [(str ''name'', JString (str ''Demo''))]) =
      Inr [(str ''name'', JString (str ''Demo''))]"
    by code_simp
  from post_no_header [OF h, of "1/2" zeroBytes freshResponse] v h show ?thesis
    by simp
qed

theorem post_no_header_counterexample:
  "headers \<lparr>body = JObject [], headers = noHeaders\<rparr> (str ''authorization'') = None
   \<and> app_post (1/2) zeroBytes \<lparr>body = JObject [], headers = noHeaders\<rparr> freshResponse =
       (\<lparr>statusCode = 400,
         sent = Some (SentStringified (ZodError [Issue invalid_type [str ''name'']]))\<rparr>, None)
   \<and> SentStringified (ZodError [Issue invalid_type [str ''name'']]) \<noteq>
       Sent (JString (str ''No header Authorization''))"
  by code_simp

text \<open>
  C3. When the body is valid and the \<open>Authorization\<close> header is a string that is not a valid
  UUID, the function given to \<open>completeAsJson\<close> raises the parse error, \<open>completeAsJson\<close> does not
  catch it, and the error leaves the handler with the response untouched: no status is
  set and nothing is sent.
\<close>

theorem post_invalid_identity:
  assumes "safeParse CreateProjectRequest (body req) = Inr request"
    and "headers req (str ''authorization'') = Some (Single token)"
    and "\<not> uuidRegex token"
  shows "thunk (createProject rand rng) (Single token) request () =
           Inl (ZodError [Issue invalid_string []])
         \<and> completeAsJson (thunk (createProject rand rng) (Single token) request) req res =
             (res, Some (ZodError [Issue invalid_string []]))
         \<and> app_post rand rng req res = (res, Some (ZodError [Issue invalid_string []]))"
proof -
  have raised: "thunk (createProject rand rng) (Single token) request () =
      Inl (ZodError [Issue invalid_string []])"
    using assms(3) by (simp add: thunk_def parse_userId_single)
  from completeAsJson_raises
      [of "thunk (createProject rand rng) (Single token) request", OF raised, of req res] raised
  show ?thesis
    by (simp add: app_post_def route_thunk [OF assms(1,2)])
qed

theorem post_invalid_identity_witness:
  "safeParse CreateProjectRequest (JObject [(str ''name'', JString (str ''Demo''))]) =
     Inr [(str ''name'', JString (str ''Demo''))]
   \<and> \<not> uuidRegex (str ''not-a-uuid'')
   \<and> app_post (1/2) zeroBytes
       \<lparr>body = JObject [(str ''name'', JString (str ''Demo''))],
        headers = authorization (Single (str ''not-a-uuid''))\<rparr> freshResponse =
       (freshResponse, Some (ZodError [Issue invalid_string []]))"
proof -
  let ?req = "\<lparr>body = JObject [(str ''name'', JString (str ''Demo''))],
        headers = authorization (Single (str ''not-a-uuid''))\<rparr>"
  have 1: "safeParse CreateProjectRequest (body ?req) = Inr [(str ''name'', JString (str ''Demo''))]"
    by code_simp
  have 2: "headers ?req (str ''authorization'') = Some (Single (str ''not-a-uuid''))"
    by (simp add: authorization_def)
  have 3: "\<not> uuidRegex (str ''not-a-uuid'')"
    by code_simp
  from post_invalid_identity [OF 1 2 3, of "1/2" zeroBytes freshResponse] 1 3 show ?thesis
    by simp
qed

text \<open>
  C4 (amended). A request body that has no \<open>name\<close> property holding a string with a character
  other than white space is answered by \<open>entityAs\<close> with status 400 and the rendered
  validation error, the same for every continuation, so the continuation and the service
  are not invoked. When the body is an object, one issue of the error has the path \<open>name\<close>;
  when it is not an object, the only issue is about the body itself, at the empty path.
\<close>

theorem entityAs_rejects_name:
  assumes "\<forall>data n. body req = JObject data \<longrightarrow> map_of data (str ''name'') = Some (JString n)
             \<longrightarrow> list_all isWhiteSpace n"
  shows "\<exists>e. safeParse CreateProjectRequest (body req) = Inl e
           \<and> (\<forall>result. entityAs CreateProjectRequest result req res =
                 (res\<lparr>statusCode := 400, sent := Some (SentStringified e)\<rparr>, None))
           \<and> (\<forall>service. route service req res =
                 (res\<lparr>statusCode := 400, sent := Some (SentStringified e)\<rparr>, None))
           \<and> ((\<exists>data. body req = JObject data) \<longrightarrow> [str ''name''] \<in> set (map path (issues e)))
           \<and> ((\<forall>data. body req \<noteq> JObject data) \<longrightarrow> e = ZodError [Issue invalid_type []])"
proof -
  have "\<exists>e. safeParse CreateProjectRequest (body req) = Inl e
      \<and> ((\<exists>data. body req = JObject data) \<longrightarrow> [str ''name''] \<in> set (map path (issues e)))
      \<and> ((\<forall>data. body req \<noteq> JObject data) \<longrightarrow> e = ZodError [Issue invalid_type []])"
  proof (cases "\<exists>data. body req = JObject data")
    case True
    then obtain data where data: "body req = JObject data" by blast
    with assms have "\<forall>n. map_of data (str ''name'') = Some (JString n) \<longrightarrow> list_all isWhiteSpace n"
      by simp
    from safeParse_invalid_name [OF this] data show ?thesis
      by auto
  next
    case False
    then have "safeParse CreateProjectRequest (body req) = Inl (ZodError [Issue invalid_type []])"
      by (simp add: safeParse_not_object)
    with False show ?thesis
      by simp
  qed
  then obtain e where e: "safeParse CreateProjectRequest (body req) = Inl e"
    and rest: "(\<exists>data. body req = JObject data) \<longrightarrow> [str ''name''] \<in> set (map path (issues e))"
      "(\<forall>data. body req \<noteq> JObject data) \<longrightarrow> e = ZodError [Issue invalid_type []]"
    by blast
  have "entityAs CreateProjectRequest result req res =
      (res\<lparr>statusCode := 400, sent := Some (SentStringified e)\<rparr>, None)" for result
    by (simp add: entityAs_def e send_def status_def)
  with e rest route_invalid_body [OF e] show ?thesis
    by blast
qed

theorem entityAs_rejects_name_witness:
  "map_of [(str ''name'', JString (str ''  ''))] (str ''name'') = Some (JString (str ''  ''))
   \<and> list_all isWhiteSpace (str ''  '')
   \<and> (\<exists>e. safeParse CreateProjectRequest (JObject [(str ''name'', JString (str ''  ''))]) = Inl e
         \<and> app_post (1/2) zeroBytes
             \<lparr>body = JObject [(str ''name'', JString (str ''  ''))],
              headers = authorization (Single exampleToken)\<rparr> freshResponse =
             (freshResponse\<lparr>statusCode := 400, sent := Some (SentStringified e)\<rparr>, None)
         \<and> [str ''name''] \<in> set (map path (issues e)))"
proof -
  let ?data = "[(str ''name'', JString (str ''  ''))]"
  let ?req = "\<lparr>body = JObject ?data, headers = authorization (Single exampleToken)\<rparr>"
  have blank: "list_all isWhiteSpace (str ''  '')"
    by code_simp
  have name: "map_of ?data (str ''name'') = Some (JString (str ''  ''))"
    by simp
  have hyp: "\<forall>data n. body ?req = JObject data \<longrightarrow> map_of data (str ''name'') = Some (JString n)
      \<longrightarrow> list_all isWhiteSpace n"
    using blank by simp
  from entityAs_rejects_name [OF hyp, of freshResponse] blank name show ?thesis
    by (auto simp: app_post_def)
qed

theorem entityAs_rejects_name_counterexample:
  "app_post (1/2) zeroBytes
       \<lparr>body = JArray [], headers = authorization (Single exampleToken)\<rparr> freshResponse =
       (\<lparr>statusCode = 400, sent = Some (SentStringified (ZodError [Issue invalid_type []]))\<rparr>, None)
   \<and> [str ''name''] \<notin> set (map path (issues (ZodError [Issue invalid_type []])))"
  by code_simp

text \<open>
  C5. When the body is valid, the caller identity parses and \<open>createProject\<close> returns
  UserNotFound, the answer has status 404 and its body is exactly the text
  \<open>Sry, no user found\<close>; the user id that UserNotFound carries occurs nowhere in that text.
\<close>

theorem post_user_not_found:
  assumes "safeParse CreateProjectRequest (body req) = Inr request"
    and "headers req (str ''authorization'') = Some token"
    and "parse userIdFormat (headerData token) = Inr uid"
    and "createProject rand rng uid request = Inr (UserNotFound userId)"
  shows "app_post rand rng req res =
           (res\<lparr>statusCode := 404, sent := Some (Sent (JString (str ''Sry, no user found'')))\<rparr>, None)
         \<and> \<not> sublist userId (str ''Sry, no user found'')"
proof -
  have "thunk (createProject rand rng) token request () =
      Inr (404, JString (str ''Sry, no user found''))"
    using assms(3,4) by (simp add: thunk_def)
  from completeAsJson_writes [of "thunk (createProject rand rng) token request", OF this, of req res]
  have answer: "app_post rand rng req res =
      (res\<lparr>statusCode := 404, sent := Some (Sent (JString (str ''Sry, no user found'')))\<rparr>, None)"
    by (simp add: app_post_def route_thunk [OF assms(1,2)])
  from assms(4) have "userId = uid"
    by (simp add: createProject_eq split: if_splits)
  with parse_userId_Inr [OF assms(3)] have "length userId = 36"
    by (simp add: uuidRegex_length)
  moreover have "length (str ''Sry, no user found'') = 18"
    by (simp add: str_def)
  ultimately have "\<not> sublist userId (str ''Sry, no user found'')"
    using sublist_length_le [of userId "str ''Sry, no user found''"] by auto
  with answer show ?thesis
    by simp
qed

theorem post_user_not_found_witness:
  "safeParse CreateProjectRequest (JObject [(str ''name'', JString (str ''Demo''))]) =
     Inr [(str ''name'', JString (str ''Demo''))]
   \<and> parse userIdFormat (headerData (Single exampleToken)) = Inr exampleToken
   \<and> createProject (1/10) zeroBytes exampleToken [(str ''name'', JString (str ''Demo''))] =
       Inr (UserNotFound exampleToken)
   \<and> app_post (1/10) zeroBytes
       \<lparr>body = JObject [(str ''name'', JString (str ''Demo''))],
        headers = authorization (Single exampleToken)\<rparr> freshResponse =
       (freshResponse\<lparr>statusCode := 404,
          sent := Some (Sent (JString (str ''Sry, no user found'')))\<rparr>, None)
   \<and> \<not> sublist exampleToken (str ''Sry, no user found'')"
proof -
  let ?req = "\<lparr>body = JObject [(str ''name'', JString (str ''Demo''))],
        headers = authorization (Single exampleToken)\<rparr>"
  have 1: "safeParse CreateProjectRequest (body ?req) = Inr [(str ''name'', JString (str ''Demo''))]"
    by code_simp
  have 2: "headers ?req (str ''authorization'') = Some (Single exampleToken)"
    by (simp add: authorization_def)
  have 3: "parse userIdFormat (headerData (Single exampleToken)) = Inr exampleToken"
    by code_simp
  have 4: "createProject (1/10) zeroBytes exampleToken [(str ''name'', JString (str ''Demo''))] =
      Inr (UserNotFound exampleToken)"
    by code_simp
  from post_user_not_found [OF 1 2 3 4, of freshResponse] 1 3 4 show ?thesis
    by simp
qed




text \<open>
  C7. The route decides in the order body validation, header extraction, outcome: a body
  that fails validation is answered by body validation whatever the headers are; a valid
  body without an \<open>Authorization\<close> header is answered by header extraction; only with both
  does the request reach \<open>completeAsJson\<close> and its function, the one place that calls the
  service. The first two answers are the same for every service, so the service is not
  invoked for them; the program's handler is the route with \<open>createProject\<close> as its service.
\<close>

theorem route_stage_order:
  "(\<forall>e. safeParse CreateProjectRequest (body req) = Inl e \<longrightarrow>
      route service req res = (res\<lparr>statusCode := 400, sent := Some (SentStringified e)\<rparr>, None))
   \<and> (\<forall>request. safeParse CreateProjectRequest (body req) = Inr request \<longrightarrow>
        headers req (str ''authorization'') = None \<longrightarrow>
        route service req res =
          (res\<lparr>statusCode := 400,
               sent := Some (Sent (JString (str ''No header Authorization'')))\<rparr>, None))
   \<and> (\<forall>request token. safeParse CreateProjectRequest (body req) = Inr request \<longrightarrow>
        headers req (str ''authorization'') = Some token \<longrightarrow>
        route service req res = completeAsJson (thunk service token request) req res)
   \<and> app_post rand rng = route (createProject rand rng)"
  using route_invalid_body [of req _ service res] route_no_header [of req _ service res]
    route_thunk [of req _ _ service res]
  by (simp add: app_post_def)

theorem route_stage_order_witness:
  "safeParse CreateProjectRequest (JObject []) = Inl (ZodError [Issue invalid_type [str ''name'']])
   \<and> route (\<lambda>uid request. Inl (ZodError [])) \<lparr>body = JObject [], headers = noHeaders\<rparr> freshResponse =
       (freshResponse\<lparr>statusCode := 400,
          sent := Some (SentStringified (ZodError [Issue invalid_type [str ''name'']]))\<rparr>, None)
   \<and> safeParse CreateProjectRequest (JObject [(str ''name'', JString (str ''Demo''))]) =
       Inr [(str ''name'', JString (str ''Demo''))]
   \<and> route (\<lambda>uid request. Inl (ZodError []))
       \<lparr>body = JObject [(str ''name'', JString (str ''Demo''))], headers = noHeaders\<rparr> freshResponse =
       (freshResponse\<lparr>statusCode := 400,
          sent := Some (Sent (JString (str ''No header Authorization'')))\<rparr>, None)"
proof -
  let ?service = "\<lambda>(uid :: jsstring) (request :: jsobject). Inl (ZodError []) :: error + CreateProjectResponse"
  let ?bad = "\<lparr>body = JObject [], headers = noHeaders\<rparr>"
  let ?good = "\<lparr>body = JObject [(str ''name'', JString (str ''Demo''))], headers = noHeaders\<rparr>"
  have 1: "safeParse CreateProjectRequest (body ?bad) = Inl (ZodError [Issue invalid_type [str ''name'']])"
    by code_simp
  have 2: "safeParse CreateProjectRequest (body ?good) = Inr [(str ''name'', JString (str ''Demo''))]"
    by code_simp
  have 3: "headers ?good (str ''authorization'') = None"
    by (simp add: noHeaders_def)
  from route_stage_order [of ?bad ?service freshResponse] route_stage_order [of ?good ?service freshResponse]
    1 2 3
  show ?thesis
    by simp
qed

text \<open>
  C8. A body that is an object with a valid \<open>name\<close> passes validation whatever other
  properties it has, and the continuation receives an object with the one declared
  property, \<open>name\<close>, holding the trimmed name.
\<close>

theorem entityAs_ignores_extra_fields:
  assumes "body req = JObject data"
    and "map_of data (str ''name'') = Some (JString name)"
    and "\<not> list_all isWhiteSpace name"
  shows "safeParse CreateProjectRequest (body req) = Inr [(str ''name'', JString (trim name))]
         \<and> entityAs CreateProjectRequest result req res =
             result [(str ''name'', JString (trim name))] req res"
  using safeParse_valid [OF assms(2,3)] by (simp add: entityAs_def assms(1))

theorem entityAs_ignores_extra_fields_witness:
  "map_of [(str ''admin'', JBool True), (str ''name'', JString (str ''Demo'')), (str ''id'', JNumber 7)]
     (str ''name'') = Some (JString (str ''Demo''))
   \<and> \<not> list_all isWhiteSpace (str ''Demo'')
   \<and> entityAs CreateProjectRequest (\<lambda>request. completeAsJson (\<lambda>_. Inr (200, JObject request)))
       \<lparr>body = JObject [(str ''admin'', JBool True), (str ''name'', JString (str ''Demo'')),
          (str ''id'', JNumber 7)], headers = noHeaders\<rparr> freshResponse =
       (freshResponse\<lparr>statusCode := 200,
          sent := Some (Sent (JObject [(str ''name'', JString (str ''Demo''))]))\<rparr>, None)"
proof -
  let ?data = "[(str ''admin'', JBool True), (str ''name'', JString (str ''Demo'')), (str ''id'', JNumber 7)]"
  let ?req = "\<lparr>body = JObject ?data, headers = noHeaders\<rparr>"
  have 1: "body ?req = JObject ?data" by simp
  have 2: "map_of ?data (str ''name'') = Some (JString (str ''Demo''))" by code_simp
  have 3: "\<not> list_all isWhiteSpace (str ''Demo'')" by code_simp
  have 4: "trim (str ''Demo'') = str ''Demo''" by code_simp
  from entityAs_ignores_extra_fields [OF 1 2 3,
      of "\<lambda>request. completeAsJson (\<lambda>_. Inr (200, JObject request))" freshResponse] 2 3
  show ?thesis
    by (simp add: 4 completeAsJson_def send_def status_def)
qed

text \<open>
  C9. In the Created branch of \<open>createProject\<close> the generated identifier always passes
  \<open>projectIdFormat.parse\<close>, whatever the random bytes are, so \<open>createProject\<close> raises nothing
  and returns a response for every input. The identifier has the UUID form, and its
  version digit is 4.
\<close>

theorem createProject_total:
  "parse projectIdFormat (JString (v4 rng)) = Inr (v4 rng)
   \<and> uuidRegex (v4 rng) \<and> v4 rng ! 14 = 0x34
   \<and> (\<exists>response. createProject rand rng userId request = Inr response)"
  by (simp add: createProject_def projectIdFormat_def parse_uuid uuidRegex_v4 v4_version)




end
